theory Spec2Isabelle
  imports
    Main
    "HOL-Library.Sublist"
    "HOL-Library.Char_ord"
    "HOL-Library.List_Lexorder"
    "HOL-Library.Product_Lexorder"
    "HOL-Library.Multiset"
begin

section \<open>Python strings and the few library calls that \<open>docker_ps.py\<close> uses\<close>

text \<open>
  A Python \<open>str\<close> is a sequence of code points. The model is \<open>string\<close>, a list of
  \<open>char\<close>, read as the code points \<open>0\<close> to \<open>255\<close> (ASCII and Latin-1); comparison of
  strings is the lexicographic order on the code points, as in Python.
\<close>

text \<open>
  \<open>str.lower()\<close> on code points below 256: the letters \<open>A\<close> to \<open>Z\<close> and the Latin-1
  capitals \<open>0xC0\<close> to \<open>0xDE\<close> (the multiplication sign \<open>0xD7\<close> apart) move up by 32,
  every other code point is kept.
\<close>

definition lower_char :: "char \<Rightarrow> char" where
  "lower_char c =
     (let n = (of_char c :: nat)
      in if 65 \<le> n \<and> n \<le> 90 then char_of (n + 32)
         else if 192 \<le> n \<and> n \<le> 214 then char_of (n + 32)
         else if 216 \<le> n \<and> n \<le> 222 then char_of (n + 32)
         else c)"

definition lower :: "string \<Rightarrow> string" where
  "lower s = map lower_char s"

text \<open>\<open>sub in s\<close>: \<open>sub\<close> occurs in \<open>s\<close> as a contiguous substring.\<close>

fun contains :: "string \<Rightarrow> string \<Rightarrow> bool" where
  "contains sub [] = (sub = [])"
| "contains sub (c # cs) = (prefix sub (c # cs) \<or> contains sub cs)"

text \<open>\<open>s.startswith(p)\<close>.\<close>

definition startswith :: "string \<Rightarrow> string \<Rightarrow> bool" where
  "startswith s p = prefix p s"

text \<open>\<open>sep.join(xs)\<close>.\<close>

fun join :: "string \<Rightarrow> string list \<Rightarrow> string" where
  "join sep [] = []"
| "join sep [x] = x"
| "join sep (x # y # ys) = x @ sep @ join sep (y # ys)"

text \<open>
  The regular-expression classes \<open>\d\<close> and \<open>\s\<close> of a \<open>str\<close> pattern, on code points
  below 256: the decimal digits \<open>0\<close> to \<open>9\<close>; and the white space of \<open>str.isspace\<close>,
  that is \<open>\t \n \v \f \r\<close>, the separators \<open>0x1C\<close> to \<open>0x1F\<close>, the blank, \<open>0x85\<close> and
  \<open>0xA0\<close>.
\<close>

definition is_digit :: "char \<Rightarrow> bool" where
  "is_digit c = (let n = (of_char c :: nat) in 48 \<le> n \<and> n \<le> 57)"

definition is_space :: "char \<Rightarrow> bool" where
  "is_space c =
     (let n = (of_char c :: nat)
      in (9 \<le> n \<and> n \<le> 13) \<or> (28 \<le> n \<and> n \<le> 32) \<or> n = 133 \<or> n = 160)"

text \<open>\<open>str(n)\<close> for an integer: the decimal digits, with a minus sign when negative.\<close>

definition digit_char :: "nat \<Rightarrow> char" where
  "digit_char d = char_of (48 + d)"

fun str_nat :: "nat \<Rightarrow> string" where
  "str_nat n =
     (if n < 10 then [digit_char n] else str_nat (n div 10) @ [digit_char (n mod 10)])"

declare str_nat.simps [simp del]

definition str_int :: "int \<Rightarrow> string" where
  "str_int n = (if n < 0 then CHR ''-'' # str_nat (nat (- n)) else str_nat (nat n))"

text \<open>\<open>s.rjust(w)\<close>: blanks on the left up to the width \<open>w\<close>, nothing cut.\<close>

definition rjust :: "nat \<Rightarrow> string \<Rightarrow> string" where
  "rjust w s = replicate (w - length s) CHR '' '' @ s"

text \<open>The format specification \<open>{n:2d}\<close> of an f-string.\<close>

definition fmt_2d :: "int \<Rightarrow> string" where
  "fmt_2d n = rjust 2 (str_int n)"

text \<open>\<open>int(ds)\<close> for a string \<open>ds\<close> of decimal digits (a capture of \<open>\d+\<close>).\<close>

definition digit_val :: "char \<Rightarrow> int" where
  "digit_val c = int (of_char c) - 48"

definition int_of_digits :: "string \<Rightarrow> int" where
  "int_of_digits ds = foldl (\<lambda>a c. 10 * a + digit_val c) 0 ds"

text \<open>
  \<open>re.search(pattern, s)\<close>, for a pattern given by its matcher at one start position:
  the start positions are tried from the left, the first that matches wins.
\<close>

fun re_search :: "(string \<Rightarrow> 'a option) \<Rightarrow> string \<Rightarrow> 'a option" where
  "re_search m [] = m []"
| "re_search m (c # cs) = (case m (c # cs) of Some r \<Rightarrow> Some r | None \<Rightarrow> re_search m cs)"

section \<open>Field extractors\<close>

subsection \<open>\<open>extract_external_ports\<close>\<close>

text \<open>
  The pattern \<open>0\.0\.0\.0:(\d+)\<close> at the start of \<open>s\<close>: the eight literal characters,
  then the longest run of digits, which must not be empty (nothing follows \<open>\d+\<close> in
  the pattern, so the greedy run is the match). The result is the capture and the text
  after the match.
\<close>

definition match_port :: "string \<Rightarrow> (string \<times> string) option" where
  "match_port s =
     (if prefix ''0.0.0.0:'' s
      then let r = drop (length ''0.0.0.0:'') s; ds = takeWhile is_digit r
           in if ds = [] then None else Some (ds, dropWhile is_digit r)
      else None)"

text \<open>
  \<open>re.findall\<close> of that pattern: the matches from left to right, none overlapping
  another; after a match the scan goes on behind it, after a failure one character on.
  With one group in the pattern the result is the list of the captures.
\<close>

function findall_ports :: "string \<Rightarrow> string list" where
  "findall_ports [] = []"
| "findall_ports (c # cs) =
     (case match_port (c # cs) of
        Some (p, rest) \<Rightarrow> p # findall_ports rest
      | None \<Rightarrow> findall_ports cs)"
  by pat_completeness auto
termination
proof (relation "measure length", goal_cases)
  case 1
  show ?case by simp
next
  case (2 c cs)
  show ?case by simp
next
  case (3 c cs x2 p rest)
  then have m: "match_port (c # cs) = Some (p, rest)"
    by simp
  then have pre: "prefix ''0.0.0.0:'' (c # cs)"
    by (simp add: match_port_def split: if_splits)
  then have len: "length ''0.0.0.0:'' \<le> length (c # cs)"
    by (rule prefix_length_le)
  from m pre have "rest = dropWhile is_digit (drop (length ''0.0.0.0:'') (c # cs))"
    by (simp add: match_port_def Let_def split: if_splits)
  then have "length rest \<le> length (drop (length ''0.0.0.0:'') (c # cs))"
    by (simp only: length_dropWhile_le)
  with len show ?case by simp
qed

text \<open>
  \<^verbatim>\<open>
  def extract_external_ports(ports_str):
      if not ports_str:
          return ""
      matches = re.findall(r'0\.0\.0\.0:(\d+)', ports_str)
      return ",".join(matches) if matches else ""
  \<close>
\<close>

definition extract_external_ports :: "string \<Rightarrow> string" where
  "extract_external_ports ports_str =
     (if ports_str = [] then []
      else let matches = findall_ports ports_str
           in if matches \<noteq> [] then join '','' matches else [])"

subsection \<open>\<open>get_working_dir\<close>\<close>

definition working_dir_key :: string where
  "working_dir_key = ''com.docker.compose.project.working_dir=''"

text \<open>
  The pattern \<open>com\.docker\.compose\.project\.working_dir=([^,]+)\<close> at the start of
  \<open>s\<close>: the key, then the longest run of characters other than a comma, not empty.
\<close>

definition match_working_dir :: "string \<Rightarrow> string option" where
  "match_working_dir s =
     (if prefix working_dir_key s
      then let v = takeWhile (\<lambda>c. c \<noteq> CHR '','') (drop (length working_dir_key) s)
           in if v = [] then None else Some v
      else None)"

text \<open>
  \<^verbatim>\<open>
  def get_working_dir(labels):
      if not labels:
          return ""
      match = re.search(r'com\.docker\.compose\.project\.working_dir=([^,]+)', labels)
      return match.group(1) if match else ""
  \<close>
\<close>

definition get_working_dir :: "string \<Rightarrow> string" where
  "get_working_dir labels =
     (if labels = [] then []
      else case re_search match_working_dir labels of
             Some v \<Rightarrow> v
           | None \<Rightarrow> [])"

subsection \<open>\<open>get_container_uptime\<close> and \<open>parse_status_for_time\<close>\<close>

text \<open>
  Lines 58 to 74 of \<open>get_container_uptime\<close>: the branch on \<open>uptime_seconds\<close>, an
  integer. Python's \<open>//\<close> is floor division, as \<open>div\<close> on \<open>int\<close> is.
\<close>

definition format_uptime :: "int \<Rightarrow> string" where
  "format_uptime uptime_seconds =
     (if uptime_seconds < 60 then fmt_2d uptime_seconds @ '' s''
      else if uptime_seconds < 3600 then fmt_2d (uptime_seconds div 60) @ '' m''
      else if uptime_seconds < 86400 then fmt_2d (uptime_seconds div 3600) @ '' h''
      else if uptime_seconds < 2592000 then fmt_2d (uptime_seconds div 86400) @ '' d''
      else if uptime_seconds < 31536000 then fmt_2d (uptime_seconds div 2592000) @ '' mo''
      else fmt_2d (uptime_seconds div 31536000) @ '' y'')"

text \<open>
  The \<open>try\<close> block runs \<open>docker inspect\<close>, parses the start time and subtracts it from
  the clock. That is the environment \<open>inspect\<close>: for a container identifier, the value
  of \<open>uptime_seconds\<close> when line 55 is reached, or \<open>None\<close> when anything before it
  raises (the command fails, the time stamp does not parse). The handler of line 76
  returns the placeholder; it has no access to the status text and calls nothing.
\<close>

definition get_container_uptime :: "(string \<Rightarrow> int option) \<Rightarrow> string \<Rightarrow> string" where
  "get_container_uptime inspect container_id =
     (case inspect container_id of
        Some uptime_seconds \<Rightarrow> format_uptime uptime_seconds
      | None \<Rightarrow> ''   ?'')"

text \<open>
  The pattern \<open>(\d+)\s+word\<close> at the start of \<open>s\<close>: the longest run of digits, then
  the longest run of white space, both not empty, then the word. Giving back a digit
  or a blank cannot help, since a digit is no white space and no word here starts with
  white space; so the greedy runs decide the match. The result is the capture.
\<close>

definition match_time :: "string \<Rightarrow> string \<Rightarrow> string option" where
  "match_time word s =
     (let ds = takeWhile is_digit s; r = dropWhile is_digit s;
          ws = takeWhile is_space r; t = dropWhile is_space r
      in if ds \<noteq> [] \<and> ws \<noteq> [] \<and> prefix word t then Some ds else None)"

text \<open>
  \<^verbatim>\<open>
  def parse_status_for_time(status):
      if "second" in status:
          match = re.search(r'(\d+)\s+second', status)
          if match:
              return f"{int(match.group(1)):2d} s"
      elif "minute" in status:
          ...
      return "   ?"
  \<close>
  No function of the program calls it. (\<open>int\<close> refuses a string of more than 4300
  digits in recent versions of Python; the model converts every run of digits.)
\<close>

definition parse_status_for_time :: "string \<Rightarrow> string" where
  "parse_status_for_time status =
     (if contains ''second'' status then
        (case re_search (match_time ''second'') status of
           Some g \<Rightarrow> fmt_2d (int_of_digits g) @ '' s''
         | None \<Rightarrow> ''   ?'')
      else if contains ''minute'' status then
        (case re_search (match_time ''minute'') status of
           Some g \<Rightarrow> fmt_2d (int_of_digits g) @ '' m''
         | None \<Rightarrow> ''   ?'')
      else if contains ''hour'' status then
        (case re_search (match_time ''hour'') status of
           Some g \<Rightarrow> fmt_2d (int_of_digits g) @ '' h''
         | None \<Rightarrow> ''   ?'')
      else if contains ''day'' status then
        (case re_search (match_time ''day'') status of
           Some g \<Rightarrow> fmt_2d (int_of_digits g) @ '' d''
         | None \<Rightarrow> ''   ?'')
      else ''   ?'')"

subsection \<open>Status: \<open>get_simple_status\<close>, \<open>get_status_style\<close> and the styled cells\<close>

text \<open>
  \<^verbatim>\<open>
  def get_simple_status(status):
      status_lower = status.lower()
      if "healthy" in status_lower:
          return "healthy"
      elif "unhealthy" in status_lower:
          return "unhealthy"
      elif "starting" in status_lower:
          ...
  \<close>
\<close>

definition get_simple_status :: "string \<Rightarrow> string" where
  "get_simple_status status =
     (let status_lower = lower status
      in if contains ''healthy'' status_lower then ''healthy''
         else if contains ''unhealthy'' status_lower then ''unhealthy''
         else if contains ''starting'' status_lower then ''starting''
         else if contains ''up'' status_lower then ''running''
         else if contains ''exited (0)'' status_lower then ''stopped''
         else if contains ''exited'' status_lower then ''error''
         else if contains ''dead'' status_lower then ''dead''
         else if contains ''paused'' status_lower then ''paused''
         else if contains ''restarting'' status_lower then ''restarting''
         else ''unknown'')"

definition get_status_style :: "string \<Rightarrow> string" where
  "get_status_style status =
     (if status = ''healthy'' then ''bright_green''
      else if status = ''unhealthy'' then ''bright_red''
      else if status = ''running'' then ''bright_cyan''
      else if status \<in> set [''stopped'', ''error''] then ''bright_red''
      else if status \<in> set [''starting'', ''restarting''] then ''bright_yellow''
      else ''white'')"

text \<open>
  A cell handed to \<open>table.add_row\<close>: a plain \<open>str\<close>, or a \<open>rich.text.Text\<close> with its
  text and its \<open>style\<close>.
\<close>

datatype renderable = Str string | Text string string

definition style_container_name :: "string \<Rightarrow> string \<Rightarrow> renderable" where
  "style_container_name name status = (let style = get_status_style status in Text name style)"

definition style_status_text :: "string \<Rightarrow> renderable" where
  "style_status_text status = (let style = get_status_style status in Text status style)"

subsection \<open>\<open>extract_group_from_path\<close>\<close>

definition extract_group_from_path :: "string \<Rightarrow> string" where
  "extract_group_from_path path =
     (if path = [] then ''zzz_other''
      else if contains ''/actions-runner/'' path then ''a_github''
      else if startswith path ''/opt/'' then ''b_opt''
      else if startswith path ''/var/'' then ''c_var''
      else ''d_other'')"

section \<open>The runtime query and \<open>main\<close>\<close>

text \<open>
  One record of \<open>docker ps --format json\<close>: the dictionary that \<open>json.loads\<close> returns
  for a line. \<open>main\<close> reads \<open>ID\<close>, \<open>Status\<close> and \<open>Names\<close> by subscript and \<open>Labels\<close> and
  \<open>Ports\<close> with \<open>get\<close> and the default \<open>""\<close>; \<open>None\<close> is the absent key.
\<close>

record container =
  ID :: string
  Names :: string
  Status :: string
  Ports :: "string option"
  Labels :: "string option"

text \<open>
  A line of the command's output, after \<open>strip\<close> and \<open>split\<close>: empty (skipped), a
  JSON object, or text on which \<open>json.loads\<close> raises.
\<close>

datatype json_line = Empty_line | Object container | Malformed

text \<open>
  What \<open>subprocess.run(cmd, ..., check=True)\<close> does: it raises \<open>CalledProcessError\<close>
  (here with the text of the exception) on a non-zero exit status or returns the
  standard output.
\<close>

datatype completed = CalledProcessError string | Stdout "json_line list"

datatype error = JSONDecodeError

text \<open>The loop of lines 21 to 23, with the list \<open>containers\<close> built so far.\<close>

fun loads_lines :: "json_line list \<Rightarrow> container list \<Rightarrow> error + container list" where
  "loads_lines [] containers = Inr containers"
| "loads_lines (Empty_line # ls) containers = loads_lines ls containers"
| "loads_lines (Object c # ls) containers = loads_lines ls (containers @ [c])"
| "loads_lines (Malformed # ls) containers = Inl JSONDecodeError"

text \<open>
  \<open>get_docker_containers\<close>, in the environment \<open>run\<close> that answers a command line. The
  result is the lines printed and the value returned; \<open>cmd.insert(2, "-a")\<close> puts the
  flag before the element at index 2.
\<close>

definition get_docker_containers ::
  "(string list \<Rightarrow> completed) \<Rightarrow> bool \<Rightarrow> string list \<times> (error + container list)" where
  "get_docker_containers run show_all =
     (let cmd = [''docker'', ''ps'', ''--format'', ''json''];
          cmd = (if show_all then take 2 cmd @ [''-a''] @ drop 2 cmd else cmd)
      in case run cmd of
           Stdout ls \<Rightarrow> ([], loads_lines ls [])
         | CalledProcessError e \<Rightarrow> ([''Error running docker command: '' @ e], Inr []))"

text \<open>
  An entry of \<open>container_data\<close> (lines 182 to 190). The keys of the dictionary are
  \<open>group\<close>, \<open>id\<close>, \<open>name\<close>, \<open>workdir\<close>, \<open>ports\<close>, \<open>uptime\<close> and \<open>status\<close>; the fields carry
  the prefix \<open>row_\<close> since \<open>id\<close> is a constant of HOL.
\<close>

record display_row =
  row_group :: string
  row_id :: string
  row_name :: string
  row_workdir :: string
  row_ports :: string
  row_uptime :: string
  row_status :: string

text \<open>\<open>d.get(key, "")\<close> and \<open>x or "-"\<close>.\<close>

definition get_or_empty :: "string option \<Rightarrow> string" where
  "get_or_empty v = (case v of Some s \<Rightarrow> s | None \<Rightarrow> [])"

definition or_dash :: "string \<Rightarrow> string" where
  "or_dash s = (if s = [] then ''-'' else s)"

text \<open>The body of the loop of lines 176 to 190, for one container.\<close>

definition make_row :: "(string \<Rightarrow> int option) \<Rightarrow> container \<Rightarrow> display_row" where
  "make_row inspect c =
     (let workdir = get_working_dir (get_or_empty (Labels c));
          group = extract_group_from_path workdir;
          uptime = get_container_uptime inspect (ID c);
          simple_status = get_simple_status (Status c)
      in \<lparr> row_group = group,
           row_id = take 8 (ID c),
           row_name = Names c,
           row_workdir = or_dash workdir,
           row_ports = extract_external_ports (get_or_empty (Ports c)),
           row_uptime = uptime,
           row_status = simple_status \<rparr>)"

text \<open>The six cells of \<open>table.add_row\<close> (lines 208 to 215).\<close>

definition add_row :: "display_row \<Rightarrow> renderable list" where
  "add_row r =
     [Str (row_id r),
      style_container_name (row_name r) (row_status r),
      Str (row_workdir r),
      Str (or_dash (row_ports r)),
      Str (row_uptime r),
      style_status_text (row_status r)]"

text \<open>
  What the program writes: a line of \<open>print\<close>, or the table of \<open>console.print\<close>, given
  by its rows in order (the columns and their widths are constants of the program).
\<close>

datatype written = Print string | Print_table "renderable list list"

text \<open>
  \<open>main\<close>: the output in order, or the exception that ends the run. \<open>list.sort\<close> with
  a key is stable, as \<open>sort_key\<close> is; the key is a pair of strings, compared
  lexicographically.
\<close>

definition main :: "(string list \<Rightarrow> completed) \<Rightarrow> (string \<Rightarrow> int option) \<Rightarrow> error + written list" where
  "main run inspect =
     (case get_docker_containers run True of
        (printed, Inl e) \<Rightarrow> Inl e
      | (printed, Inr containers) \<Rightarrow>
          if containers = [] then Inr (map Print printed @ [Print ''No containers found''])
          else
            let container_data = map (make_row inspect) containers;
                container_data = sort_key (\<lambda>x. (row_workdir x, row_name x)) container_data
            in Inr (map Print printed @ [Print_table (map add_row container_data)]))"

section \<open>Notions used to state the properties\<close>

text \<open>
  The priority list of the status normalizer as the specification gives it: pairs of a
  pattern and the keyword returned for it, in order, and \<open>unknown\<close> when none matches.
\<close>

definition status_patterns :: "(string \<times> string) list" where
  "status_patterns =
     [(''healthy'', ''healthy''), (''unhealthy'', ''unhealthy''), (''starting'', ''starting''),
      (''up'', ''running''), (''exited (0)'', ''stopped''), (''exited'', ''error''),
      (''dead'', ''dead''), (''paused'', ''paused''), (''restarting'', ''restarting'')]"

definition status_keywords :: "string list" where
  "status_keywords =
     [''healthy'', ''unhealthy'', ''starting'', ''running'', ''stopped'', ''error'', ''dead'',
      ''paused'', ''restarting'', ''unknown'']"

definition first_match :: "(string \<times> string) list \<Rightarrow> string \<Rightarrow> string" where
  "first_match table text =
     (case find (\<lambda>(pattern, keyword). contains pattern text) table of
        Some (pattern, keyword) \<Rightarrow> keyword
      | None \<Rightarrow> ''unknown'')"

text \<open>The command line that \<open>main\<close> runs: \<open>show_all\<close> is always true.\<close>

definition list_all_command :: "string list" where
  "list_all_command = [''docker'', ''ps'', ''-a'', ''--format'', ''json'']"

text \<open>
  The text shown in a cell, the pair of the working-directory cell and the name cell of
  a rendered row, and the rendered row of one container.
\<close>

fun cell_text :: "renderable \<Rightarrow> string" where
  "cell_text (Str s) = s"
| "cell_text (Text s style) = s"

definition displayed_key :: "renderable list \<Rightarrow> string \<times> string" where
  "displayed_key cells = (cell_text (cells ! 2), cell_text (cells ! 1))"

definition render :: "(string \<Rightarrow> int option) \<Rightarrow> container \<Rightarrow> renderable list" where
  "render inspect c = add_row (make_row inspect c)"

text \<open>
  An occurrence of the working-directory label at index \<open>i\<close> of \<open>s\<close>: the key stands
  there and the character after it is not a comma.
\<close>

definition working_dir_at :: "string \<Rightarrow> nat \<Rightarrow> bool" where
  "working_dir_at s i =
     (take (length working_dir_key) (drop i s) = working_dir_key
      \<and> i + length working_dir_key < length s
      \<and> s ! (i + length working_dir_key) \<noteq> CHR '','')"

text \<open>
  An occurrence of a published port at index \<open>i\<close> of \<open>s\<close>: the eight characters
  \<open>0.0.0.0:\<close> stand there and the character after them is a digit.
\<close>

definition port_pattern_at :: "string \<Rightarrow> nat \<Rightarrow> bool" where
  "port_pattern_at s i =
     (take 8 (drop i s) = ''0.0.0.0:'' \<and> i + 8 < length s \<and> is_digit (s ! (i + 8)))"

section \<open>Substrings\<close>

lemma contains_sublist: "contains sub s = sublist sub s"
  by (induction s) (simp_all add: sublist_Cons_right)

lemma contains_restarting_starting:
  assumes "contains ''restarting'' t"
  shows "contains ''starting'' t"
proof -
  from assms obtain ps ss where "t = ps @ ''restarting'' @ ss"
    unfolding contains_sublist sublist_def by blast
  then have "t = (ps @ ''re'') @ ''starting'' @ ss"
    by simp
  then show ?thesis
    unfolding contains_sublist sublist_def by blast
qed

section \<open>Status normalization\<close>

lemma get_simple_status_first_match:
  "get_simple_status s = first_match status_patterns (lower s)"
  by (simp add: get_simple_status_def first_match_def status_patterns_def Let_def)

lemma get_simple_status_keyword: "get_simple_status s \<in> set status_keywords"
  by (simp add: get_simple_status_def status_keywords_def Let_def)

text \<open>
  C1. The claim is that a status whose lower-casing contains \<open>unhealthy\<close> is normalized
  to \<open>unhealthy\<close>. The code tests \<open>healthy\<close> first, and \<open>healthy\<close> is a substring of
  \<open>unhealthy\<close>: on \<open>Up 3 hours (unhealthy)\<close> the normalizer returns \<open>healthy\<close>.
\<close>

theorem get_simple_status_unhealthy_shadowed:
  "get_simple_status ''Up 3 hours (unhealthy)'' = ''healthy''"
  by code_simp

text \<open>
  C5. Status normalization is total into the closed set of ten keywords; it returns the
  keyword of the first pattern of the priority list (with \<open>exited (0)\<close> before
  \<open>exited\<close>) that occurs in the lower-cased status, and \<open>unknown\<close> when none occurs;
  \<open>Exited (0) 2 hours ago\<close> gives \<open>stopped\<close>, \<open>Exited (1) 2 hours ago\<close> gives \<open>error\<close>,
  \<open>Up 5 minutes\<close> gives \<open>running\<close>, and \<open>Created\<close>, which matches no pattern, gives
  \<open>unknown\<close>.
\<close>

theorem get_simple_status_total_ordered:
  "get_simple_status s \<in> set status_keywords
   \<and> get_simple_status s = first_match status_patterns (lower s)
   \<and> get_simple_status ''Exited (0) 2 hours ago'' = ''stopped''
   \<and> get_simple_status ''Exited (1) 2 hours ago'' = ''error''
   \<and> get_simple_status ''Up 5 minutes'' = ''running''
   \<and> get_simple_status ''Created'' = ''unknown''"
proof -
  have "get_simple_status ''Exited (0) 2 hours ago'' = ''stopped''" by code_simp
  moreover have "get_simple_status ''Exited (1) 2 hours ago'' = ''error''" by code_simp
  moreover have "get_simple_status ''Up 5 minutes'' = ''running''" by code_simp
  moreover have "get_simple_status ''Created'' = ''unknown''" by code_simp
  ultimately show ?thesis
    using get_simple_status_first_match get_simple_status_keyword by blast
qed

text \<open>
  C10. The normalizer never returns \<open>restarting\<close>: a lower-cased status that contains
  \<open>restarting\<close> contains \<open>starting\<close>, which is tested earlier.
\<close>

theorem get_simple_status_never_restarting:
  "(contains ''restarting'' (lower s) \<longrightarrow> contains ''starting'' (lower s))
   \<and> get_simple_status s \<noteq> ''restarting''"
proof
  show "contains ''restarting'' (lower s) \<longrightarrow> contains ''starting'' (lower s)"
    by (simp add: contains_restarting_starting)
  show "get_simple_status s \<noteq> ''restarting''"
    using contains_restarting_starting [of "lower s"]
    by (auto simp add: get_simple_status_def Let_def)
qed

theorem get_simple_status_never_restarting_witness:
  "contains ''restarting'' (lower ''Restarting (1) 5 seconds ago'')
   \<and> contains ''starting'' (lower ''Restarting (1) 5 seconds ago'')
   \<and> get_simple_status ''Restarting (1) 5 seconds ago'' = ''starting''"
proof -
  have a: "contains ''restarting'' (lower ''Restarting (1) 5 seconds ago'')" by code_simp
  have b: "get_simple_status ''Restarting (1) 5 seconds ago'' = ''starting''" by code_simp
  from a b get_simple_status_never_restarting [of "''Restarting (1) 5 seconds ago''"]
  show ?thesis by blast
qed

section \<open>The run of \<open>main\<close>\<close>

lemma main_failed:
  "run list_all_command = CalledProcessError e \<Longrightarrow>
   main run inspect =
     Inr [Print (''Error running docker command: '' @ e), Print ''No containers found'']"
  by (simp add: main_def get_docker_containers_def list_all_command_def)

lemma main_no_containers:
  "run list_all_command = Stdout ls \<Longrightarrow> loads_lines ls [] = Inr [] \<Longrightarrow>
   main run inspect = Inr [Print ''No containers found'']"
  by (simp add: main_def get_docker_containers_def list_all_command_def)

lemma main_table:
  "run list_all_command = Stdout ls \<Longrightarrow> loads_lines ls [] = Inr containers \<Longrightarrow>
   containers \<noteq> [] \<Longrightarrow>
   main run inspect =
     Inr [Print_table (map add_row
            (sort_key (\<lambda>x. (row_workdir x, row_name x)) (map (make_row inspect) containers)))]"
  by (simp add: main_def get_docker_containers_def list_all_command_def)

lemma displayed_key_add_row: "displayed_key (add_row r) = (row_workdir r, row_name r)"
  by (simp add: displayed_key_def add_row_def style_container_name_def)

lemma sorted_rows:
  "sorted (map displayed_key (map add_row (sort_key (\<lambda>x. (row_workdir x, row_name x)) rs)))"
proof -
  have "map displayed_key (map add_row xs) = map (\<lambda>x. (row_workdir x, row_name x)) xs" for xs
    by (simp add: displayed_key_add_row)
  then show ?thesis
    by (simp only: sorted_sort_key)
qed

lemma mset_rows:
  "mset (map add_row (sort_key k (map (make_row inspect) cs))) = mset (map (render inspect) cs)"
proof -
  have "mset (sort_key k (map (make_row inspect) cs)) = mset (map (make_row inspect) cs)"
    by simp
  then have "image_mset add_row (mset (sort_key k (map (make_row inspect) cs)))
      = image_mset add_row (mset (map (make_row inspect) cs))"
    by (rule arg_cong)
  moreover have "render inspect = add_row \<circ> make_row inspect"
    by (simp add: fun_eq_iff render_def)
  ultimately show ?thesis
    by (simp add: multiset.map_comp)
qed

lemma three_rows:
  assumes "get_working_dir (get_or_empty (Labels c1)) = ''/var/b''"
      and "get_working_dir (get_or_empty (Labels c2)) = ''/var/a''"
      and "get_working_dir (get_or_empty (Labels c3)) = []"
  shows "sort_key (\<lambda>x. (row_workdir x, row_name x)) (map (make_row inspect) [c1, c2, c3])
         = map (make_row inspect) [c3, c2, c1]"
proof -
  have w: "row_workdir (make_row inspect c1) = ''/var/b''"
     "row_workdir (make_row inspect c2) = ''/var/a''"
     "row_workdir (make_row inspect c3) = ''-''"
    using assms by (simp_all add: make_row_def or_dash_def Let_def)
  show ?thesis
    by (simp add: w)
qed

text \<open>
  C8. When the list command exits non-zero, the error message is printed, then
  \<open>No containers found\<close>, and no table; when the command succeeds and its output holds
  no container, \<open>No containers found\<close> is all that is printed.
\<close>

theorem main_no_containers_found:
  "(run list_all_command = CalledProcessError e \<longrightarrow>
      main run inspect =
        Inr [Print (''Error running docker command: '' @ e), Print ''No containers found''])
   \<and> (run list_all_command = Stdout ls \<and> loads_lines ls [] = Inr [] \<longrightarrow>
      main run inspect = Inr [Print ''No containers found''])"
  using main_failed [of run e inspect] main_no_containers [of run ls inspect] by blast

theorem main_no_containers_found_witness:
  "main (\<lambda>cmd. CalledProcessError ''exit status 1'') (\<lambda>i. None) =
     Inr [Print ''Error running docker command: exit status 1'', Print ''No containers found'']
   \<and> main (\<lambda>cmd. Stdout [Empty_line]) (\<lambda>i. None) = Inr [Print ''No containers found'']"
  using main_no_containers_found
          [of "\<lambda>cmd. CalledProcessError ''exit status 1''" "''exit status 1''" "\<lambda>i. None" "[]"]
        main_no_containers_found
          [of "\<lambda>cmd. Stdout [Empty_line]" "[]" "\<lambda>i. None" "[Empty_line]"]
  by simp

text \<open>
  C6. For every non-empty container set the program prints one table; its rows are
  sorted ascending by the pair (displayed working directory, name) in the lexicographic
  order of strings, and they are the rendered rows of the containers, one each. For
  three containers with the working directories \<open>/var/b\<close>, \<open>/var/a\<close> and none, in that
  order, the row of the third (shown as \<open>-\<close>) comes first, then \<open>/var/a\<close>, then
  \<open>/var/b\<close>.
\<close>

theorem main_rows_sorted:
  "(run list_all_command = Stdout ls \<and> loads_lines ls [] = Inr containers \<and> containers \<noteq> [] \<longrightarrow>
      (\<exists>rows. main run inspect = Inr [Print_table rows]
         \<and> sorted (map displayed_key rows)
         \<and> mset rows = mset (map (render inspect) containers)))
   \<and> (get_working_dir (get_or_empty (Labels c1)) = ''/var/b''
      \<and> get_working_dir (get_or_empty (Labels c2)) = ''/var/a''
      \<and> get_working_dir (get_or_empty (Labels c3)) = []
      \<and> run list_all_command = Stdout [Object c1, Object c2, Object c3] \<longrightarrow>
      main run inspect = Inr [Print_table [render inspect c3, render inspect c2, render inspect c1]]
      \<and> map (\<lambda>cells. cells ! 2) [render inspect c3, render inspect c2, render inspect c1]
          = [Str ''-'', Str ''/var/a'', Str ''/var/b''])"
proof (intro conjI impI)
  assume a: "run list_all_command = Stdout ls \<and> loads_lines ls [] = Inr containers
    \<and> containers \<noteq> []"
  then have "main run inspect =
     Inr [Print_table (map add_row
            (sort_key (\<lambda>x. (row_workdir x, row_name x)) (map (make_row inspect) containers)))]"
    by (simp add: main_table)
  then show "\<exists>rows. main run inspect = Inr [Print_table rows]
         \<and> sorted (map displayed_key rows)
         \<and> mset rows = mset (map (render inspect) containers)"
    using sorted_rows mset_rows by blast
next
  assume b: "get_working_dir (get_or_empty (Labels c1)) = ''/var/b''
      \<and> get_working_dir (get_or_empty (Labels c2)) = ''/var/a''
      \<and> get_working_dir (get_or_empty (Labels c3)) = []
      \<and> run list_all_command = Stdout [Object c1, Object c2, Object c3]"
  then have s: "sort_key (\<lambda>x. (row_workdir x, row_name x)) (map (make_row inspect) [c1, c2, c3])
         = map (make_row inspect) [c3, c2, c1]"
    by (simp only: three_rows)
  have l: "loads_lines [Object c1, Object c2, Object c3] [] = Inr [c1, c2, c3]"
    by simp
  from b have r: "run list_all_command = Stdout [Object c1, Object c2, Object c3]"
    by simp
  have "main run inspect =
     Inr [Print_table (map add_row
            (sort_key (\<lambda>x. (row_workdir x, row_name x)) (map (make_row inspect) [c1, c2, c3])))]"
    by (rule main_table [where run = run, OF r l]) simp
  then show "main run inspect =
      Inr [Print_table [render inspect c3, render inspect c2, render inspect c1]]"
    by (simp only: s) (simp add: render_def)
  from b show "map (\<lambda>cells. cells ! 2) [render inspect c3, render inspect c2, render inspect c1]
          = [Str ''-'', Str ''/var/a'', Str ''/var/b'']"
    by (simp add: render_def add_row_def make_row_def or_dash_def Let_def)
qed

theorem main_rows_sorted_witness:
  "main (\<lambda>cmd. Stdout
      [Object \<lparr>ID = ''1'', Names = ''n1'', Status = ''Up'', Ports = None,
                Labels = Some ''com.docker.compose.project.working_dir=/var/b''\<rparr>,
       Object \<lparr>ID = ''2'', Names = ''n2'', Status = ''Up'', Ports = None,
                Labels = Some ''com.docker.compose.project.working_dir=/var/a''\<rparr>,
       Object \<lparr>ID = ''3'', Names = ''n3'', Status = ''Up'', Ports = None, Labels = None\<rparr>])
     (\<lambda>i. None)
   = Inr [Print_table [
       [Str ''3'', Text ''n3'' ''bright_cyan'', Str ''-'', Str ''-'', Str ''   ?'',
        Text ''running'' ''bright_cyan''],
       [Str ''2'', Text ''n2'' ''bright_cyan'', Str ''/var/a'', Str ''-'', Str ''   ?'',
        Text ''running'' ''bright_cyan''],
       [Str ''1'', Text ''n1'' ''bright_cyan'', Str ''/var/b'', Str ''-'', Str ''   ?'',
        Text ''running'' ''bright_cyan'']]]"
  (is "main ?run ?inspect = Inr [Print_table [?r3, ?r2, ?r1]]")
proof -
  let ?c1 = "\<lparr>ID = ''1'', Names = ''n1'', Status = ''Up'', Ports = None,
               Labels = Some ''com.docker.compose.project.working_dir=/var/b''\<rparr>"
  let ?c2 = "\<lparr>ID = ''2'', Names = ''n2'', Status = ''Up'', Ports = None,
               Labels = Some ''com.docker.compose.project.working_dir=/var/a''\<rparr>"
  let ?c3 = "\<lparr>ID = ''3'', Names = ''n3'', Status = ''Up'', Ports = None,
               Labels = None :: string option\<rparr>"
  have w1: "get_working_dir (get_or_empty (Labels ?c1)) = ''/var/b''" by code_simp
  have w2: "get_working_dir (get_or_empty (Labels ?c2)) = ''/var/a''" by code_simp
  have w3: "get_working_dir (get_or_empty (Labels ?c3)) = []" by code_simp
  have r1: "render ?inspect ?c1 = ?r1" by code_simp
  have r2: "render ?inspect ?c2 = ?r2" by code_simp
  have r3: "render ?inspect ?c3 = ?r3" by code_simp
  from main_rows_sorted
         [of ?run "[Object ?c1, Object ?c2, Object ?c3]" "[?c1, ?c2, ?c3]" ?inspect ?c1 ?c2 ?c3]
       w1 w2 w3
  have "main ?run ?inspect =
      Inr [Print_table [render ?inspect ?c3, render ?inspect ?c2, render ?inspect ?c1]]"
    by simp
  then show ?thesis
    by (simp only: r1 r2 r3)
qed

text \<open>
  C9. In every row of the table the name cell and the status cell carry the same style,
  and that style is \<open>get_status_style\<close> of the normalized status of the row's container.
\<close>

theorem main_name_status_same_style:
  "run list_all_command = Stdout ls \<Longrightarrow> loads_lines ls [] = Inr containers \<Longrightarrow>
   main run inspect = Inr out \<Longrightarrow> Print_table rows \<in> set out \<Longrightarrow> cells \<in> set rows \<Longrightarrow>
   \<exists>c \<in> set containers.
     cells ! 1 = Text (Names c) (get_status_style (get_simple_status (Status c)))
     \<and> cells ! 5 =
         Text (get_simple_status (Status c)) (get_status_style (get_simple_status (Status c)))"
proof -
  assume r: "run list_all_command = Stdout ls" and l: "loads_lines ls [] = Inr containers"
    and m: "main run inspect = Inr out" and t: "Print_table rows \<in> set out"
    and c: "cells \<in> set rows"
  have ne: "containers \<noteq> []"
  proof
    assume "containers = []"
    with r l have "main run inspect = Inr [Print ''No containers found'']"
      by (simp add: main_no_containers)
    with m t show False by auto
  qed
  from r l ne have "main run inspect =
     Inr [Print_table (map add_row
            (sort_key (\<lambda>x. (row_workdir x, row_name x)) (map (make_row inspect) containers)))]"
    by (rule main_table [where run = run])
  with m t have "rows = map add_row
            (sort_key (\<lambda>x. (row_workdir x, row_name x)) (map (make_row inspect) containers))"
    by auto
  with c obtain k where k: "k \<in> set containers" and cells: "cells = add_row (make_row inspect k)"
    by auto
  have "cells ! 1 = Text (Names k) (get_status_style (get_simple_status (Status k)))"
    by (simp add: cells add_row_def make_row_def style_container_name_def Let_def)
  moreover have "cells ! 5 =
      Text (get_simple_status (Status k)) (get_status_style (get_simple_status (Status k)))"
    by (simp add: cells add_row_def make_row_def style_status_text_def Let_def)
  ultimately show ?thesis using k by blast
qed

theorem main_name_status_same_style_witness:
  "\<exists>c \<in> set [\<lparr>ID = ''1'', Names = ''db'', Status = ''Exited (1) 2 hours ago'', Ports = None,
               Labels = None\<rparr>].
     [Str ''1'', Text ''db'' ''bright_red'', Str ''-'', Str ''-'', Str ''   ?'',
      Text ''error'' ''bright_red''] ! 1
        = Text (Names c) (get_status_style (get_simple_status (Status c)))
     \<and> [Str ''1'', Text ''db'' ''bright_red'', Str ''-'', Str ''-'', Str ''   ?'',
        Text ''error'' ''bright_red''] ! 5
        = Text (get_simple_status (Status c)) (get_status_style (get_simple_status (Status c)))"
proof -
  let ?c = "\<lparr>ID = ''1'', Names = ''db'', Status = ''Exited (1) 2 hours ago'',
              Ports = None :: string option, Labels = None :: string option\<rparr>"
  let ?row = "[Str ''1'', Text ''db'' ''bright_red'', Str ''-'', Str ''-'', Str ''   ?'',
               Text ''error'' ''bright_red'']"
  have m: "main (\<lambda>cmd. Stdout [Object ?c]) (\<lambda>i. None) = Inr [Print_table [?row]]"
    by code_simp
  show ?thesis
    by (rule main_name_status_same_style
               [of "\<lambda>cmd. Stdout [Object ?c]" "[Object ?c]" "[?c]" "\<lambda>i. None"
                   "[Print_table [?row]]" "[?row]" ?row])
       (simp_all add: m)
qed

section \<open>Searching with a matcher\<close>

lemma prefix_iff_take: "prefix xs ys \<longleftrightarrow> take (length xs) ys = xs"
proof
  assume "prefix xs ys"
  then obtain zs where "ys = xs @ zs" by (auto simp: prefix_def)
  then show "take (length xs) ys = xs" by simp
next
  assume "take (length xs) ys = xs"
  then show "prefix xs ys" by (metis take_is_prefix)
qed

lemma takeWhile_drop_Nil:
  "takeWhile P (drop n s) = [] \<longleftrightarrow> \<not> (n < length s \<and> P (s ! n))"
  by (auto simp add: takeWhile_eq_Nil_iff hd_drop_conv_nth)

lemma re_search_first:
  "i \<le> length s \<Longrightarrow> m (drop i s) = Some v \<Longrightarrow> (\<forall>j<i. m (drop j s) = None) \<Longrightarrow>
   re_search m s = Some v"
proof (induction s arbitrary: i)
  case Nil
  then show ?case by simp
next
  case (Cons c cs)
  show ?case
  proof (cases i)
    case 0
    with Cons.prems show ?thesis by simp
  next
    case (Suc k)
    with Cons.prems have head: "m (c # cs) = None"
      by (metis drop0 zero_less_Suc)
    from Suc Cons.prems have "k \<le> length cs" "m (drop k cs) = Some v"
      by simp_all
    moreover have "\<forall>j<k. m (drop j cs) = None"
    proof (intro allI impI)
      fix j assume "j < k"
      then have "Suc j < i" using Suc by simp
      with Cons.prems(3) have "m (drop (Suc j) (c # cs)) = None" by blast
      then show "m (drop j cs) = None" by simp
    qed
    ultimately have "re_search m cs = Some v"
      by (rule Cons.IH)
    with head show ?thesis by simp
  qed
qed

lemma re_search_none:
  "(\<forall>j\<le>length s. m (drop j s) = None) \<Longrightarrow> re_search m s = None"
proof (induction s)
  case Nil
  then show ?case by simp
next
  case (Cons c cs)
  then have head: "m (c # cs) = None"
    by (metis drop0 le0)
  have "\<forall>j\<le>length cs. m (drop j cs) = None"
  proof (intro allI impI)
    fix j assume "j \<le> length cs"
    then have "Suc j \<le> length (c # cs)" by simp
    with Cons.prems have "m (drop (Suc j) (c # cs)) = None" by blast
    then show "m (drop j cs) = None" by simp
  qed
  then have "re_search m cs = None" by (rule Cons.IH)
  with head show ?case by simp
qed

lemma match_working_dir_at:
  "match_working_dir (drop i s) =
     (if working_dir_at s i
      then Some (takeWhile (\<lambda>c. c \<noteq> CHR '','') (drop (i + length working_dir_key) s))
      else None)"
  by (simp add: match_working_dir_def working_dir_at_def Let_def prefix_iff_take
      takeWhile_drop_Nil add.commute)

lemma working_dir_at_bound: "working_dir_at s i \<Longrightarrow> i < length s"
  by (simp add: working_dir_at_def)

section \<open>Working directory\<close>

text \<open>
  C7. When the labels hold an occurrence of the key
  \<open>com.docker.compose.project.working_dir=\<close> followed by a character other than a
  comma, \<open>get_working_dir\<close> returns, for the leftmost such occurrence, exactly the
  characters after \<open>=\<close> up to the next comma or the end of the string; when they hold no
  such occurrence, and for empty labels, it returns the empty string.
\<close>

theorem get_working_dir_value:
  "(working_dir_at labels i \<and> (\<forall>j<i. \<not> working_dir_at labels j) \<longrightarrow>
      get_working_dir labels =
        takeWhile (\<lambda>c. c \<noteq> CHR '','') (drop (i + length working_dir_key) labels))
   \<and> ((\<forall>i. \<not> working_dir_at labels i) \<longrightarrow> get_working_dir labels = [])
   \<and> get_working_dir [] = []"
proof (intro conjI impI)
  assume a: "working_dir_at labels i \<and> (\<forall>j<i. \<not> working_dir_at labels j)"
  let ?v = "takeWhile (\<lambda>c. c \<noteq> CHR '','') (drop (i + length working_dir_key) labels)"
  from a have "i \<le> length labels" "labels \<noteq> []"
    using working_dir_at_bound [of labels i] by auto
  moreover from a have "match_working_dir (drop i labels) = Some ?v"
    by (simp add: match_working_dir_at)
  moreover from a have "\<forall>j<i. match_working_dir (drop j labels) = None"
    by (simp add: match_working_dir_at)
  ultimately have "re_search match_working_dir labels = Some ?v"
    by (intro re_search_first [where i = i])
  with \<open>labels \<noteq> []\<close> show "get_working_dir labels = ?v"
    by (simp add: get_working_dir_def)
next
  assume "\<forall>i. \<not> working_dir_at labels i"
  then have "\<forall>j\<le>length labels. match_working_dir (drop j labels) = None"
    by (simp add: match_working_dir_at)
  then have "re_search match_working_dir labels = None"
    by (rule re_search_none)
  then show "get_working_dir labels = []"
    by (simp add: get_working_dir_def)
next
  show "get_working_dir [] = []"
    by (simp add: get_working_dir_def)
qed

theorem get_working_dir_value_witness:
  "get_working_dir ''a=b,com.docker.compose.project.working_dir=/var/a,c=d'' = ''/var/a''
   \<and> get_working_dir ''com.docker.compose.project.working_dir=/opt/app'' = ''/opt/app''
   \<and> get_working_dir ''a=b,c=d'' = []"
proof -
  let ?t = "''com.docker.compose.project.working_dir=/opt/app''"
  have at0: "working_dir_at ?t 0"
    by (simp add: working_dir_at_def working_dir_key_def)
  have v0: "takeWhile (\<lambda>c. c \<noteq> CHR '','') (drop (0 + length working_dir_key) ?t) = ''/opt/app''"
    by (simp add: working_dir_key_def)
  from get_working_dir_value [of ?t 0] at0 v0 have end_of_string: "get_working_dir ?t = ''/opt/app''"
    by simp
  let ?s = "''a=b,com.docker.compose.project.working_dir=/var/a,c=d''"
  have at: "working_dir_at ?s 4"
    by (simp add: working_dir_at_def working_dir_key_def)
  have before: "\<forall>j<4. \<not> working_dir_at ?s j"
  proof (intro allI impI)
    fix j :: nat assume "j < 4"
    then consider "j = 0" | "j = 1" | "j = 2" | "j = 3" by linarith
    then show "\<not> working_dir_at ?s j"
      by cases (simp_all add: working_dir_at_def working_dir_key_def)
  qed
  have v: "takeWhile (\<lambda>c. c \<noteq> CHR '','') (drop (4 + length working_dir_key) ?s) = ''/var/a''"
    by (simp add: working_dir_key_def)
  have none: "\<forall>i. \<not> working_dir_at ''a=b,c=d'' i"
    by (simp add: working_dir_at_def working_dir_key_def)
  from get_working_dir_value [of ?s 4] at before v have "get_working_dir ?s = ''/var/a''"
    by simp
  moreover from get_working_dir_value [of "''a=b,c=d''"] none
  have "get_working_dir ''a=b,c=d'' = []"
    by blast
  ultimately show ?thesis using end_of_string by blast
qed

section \<open>External ports\<close>

lemma match_port_at:
  "match_port (drop i s) =
     (if port_pattern_at s i
      then Some (takeWhile is_digit (drop (i + 8) s), dropWhile is_digit (drop (i + 8) s))
      else None)"
proof -
  have l: "length ''0.0.0.0:'' = 8" by simp
  show ?thesis
    unfolding match_port_def l
    by (simp add: port_pattern_at_def Let_def prefix_iff_take [of "''0.0.0.0:''", unfolded l]
        takeWhile_drop_Nil add.commute del: drop_Suc_Cons)
qed

lemma match_port_Nil: "match_port [] = None"
  by (simp add: match_port_def)

lemma findall_ports_none:
  "(\<forall>j<length s. match_port (drop j s) = None) \<Longrightarrow> findall_ports s = []"
proof (induction s)
  case Nil
  then show ?case by simp
next
  case (Cons c cs)
  then have head: "match_port (c # cs) = None"
    by (metis drop0 length_greater_0_conv list.distinct(1))
  have "\<forall>j<length cs. match_port (drop j cs) = None"
  proof (intro allI impI)
    fix j assume "j < length cs"
    then have "Suc j < length (c # cs)" by simp
    with Cons.prems have "match_port (drop (Suc j) (c # cs)) = None" by blast
    then show "match_port (drop j cs) = None" by simp
  qed
  then have "findall_ports cs = []" by (rule Cons.IH)
  with head show ?case by simp
qed

lemma findall_ports_first:
  "match_port (drop i s) = Some (p, rest) \<Longrightarrow> (\<forall>j<i. match_port (drop j s) = None) \<Longrightarrow>
   findall_ports s = p # findall_ports rest"
proof (induction s arbitrary: i)
  case Nil
  then show ?case by (simp add: match_port_Nil)
next
  case (Cons c cs)
  show ?case
  proof (cases i)
    case 0
    with Cons.prems show ?thesis by simp
  next
    case (Suc k)
    with Cons.prems have head: "match_port (c # cs) = None"
      by (metis drop0 zero_less_Suc)
    from Suc Cons.prems have "match_port (drop k cs) = Some (p, rest)"
      by simp
    moreover have "\<forall>j<k. match_port (drop j cs) = None"
    proof (intro allI impI)
      fix j assume "j < k"
      then have "Suc j < i" using Suc by simp
      with Cons.prems(2) have "match_port (drop (Suc j) (c # cs)) = None" by blast
      then show "match_port (drop j cs) = None" by simp
    qed
    ultimately have "findall_ports cs = p # findall_ports rest"
      by (rule Cons.IH)
    with head show ?thesis by simp
  qed
qed

lemma findall_ports_nonempty: "p \<in> set (findall_ports s) \<Longrightarrow> p \<noteq> []"
proof (induction s rule: findall_ports.induct)
  case 1
  then show ?case by simp
next
  case (2 c cs)
  show ?case
  proof (cases "match_port (c # cs)")
    case None
    with 2 show ?thesis by simp
  next
    case (Some a)
    obtain q rest where a: "a = (q, rest)" by (cases a)
    from Some a have "q \<noteq> []"
      by (auto simp add: match_port_def Let_def split: if_splits)
    with 2 Some a show ?thesis by auto
  qed
qed

lemma join_Cons: "join sep (p # ps) = (if ps = [] then p else p @ sep @ join sep ps)"
  by (cases ps) simp_all

lemma join_eq_Nil: "(\<forall>p\<in>set ps. p \<noteq> []) \<Longrightarrow> join sep ps = [] \<longleftrightarrow> ps = []"
  by (cases ps) (simp_all add: join_Cons)

lemma extract_external_ports_join: "extract_external_ports s = join '','' (findall_ports s)"
  by (simp add: extract_external_ports_def Let_def)

lemma extract_external_ports_Nil_iff: "extract_external_ports s = [] \<longleftrightarrow> findall_ports s = []"
  unfolding extract_external_ports_join
  by (rule join_eq_Nil) (simp add: findall_ports_nonempty)

text \<open>
  C3, as stated: each distinct port is returned once. The code joins every match of
  \<open>re.findall\<close>: a port published for two protocols is returned twice.
\<close>

theorem extract_external_ports_repeats_port:
  "extract_external_ports ''0.0.0.0:80->80/tcp, 0.0.0.0:80->80/udp'' \<noteq> ''80''"
  by code_simp

text \<open>
  C3, amended. \<open>extract_external_ports\<close> returns the ports of the successive
  occurrences of \<open>0.0.0.0:\<close> followed by digits, scanned from the left without overlap,
  joined by commas in order of appearance, a port as often as it occurs: at the leftmost
  occurrence the port is the longest run of digits after the colon, and the rest of the
  result is the result for the text behind that run. For a string with no occurrence,
  and for the empty string, the result is empty.
\<close>

theorem extract_external_ports_all_matches:
  "(port_pattern_at s i \<and> (\<forall>j<i. \<not> port_pattern_at s j) \<longrightarrow>
      extract_external_ports s =
        (let p = takeWhile is_digit (drop (i + 8) s);
             r = extract_external_ports (drop (i + 8 + length p) s)
         in if r = [] then p else p @ '','' @ r))
   \<and> ((\<forall>i. \<not> port_pattern_at s i) \<longrightarrow> extract_external_ports s = [])
   \<and> extract_external_ports [] = []
   \<and> extract_external_ports ''0.0.0.0:80->80/tcp, 0.0.0.0:80->80/udp'' = ''80,80''"
proof (intro conjI impI)
  assume a: "port_pattern_at s i \<and> (\<forall>j<i. \<not> port_pattern_at s j)"
  let ?p = "takeWhile is_digit (drop (i + 8) s)"
  let ?rest = "drop (i + 8 + length ?p) s"
  have rest: "dropWhile is_digit (drop (i + 8) s) = ?rest"
    by (simp add: dropWhile_eq_drop add.commute)
  from a have "match_port (drop i s) = Some (?p, ?rest)"
    by (simp add: match_port_at rest)
  moreover from a have "\<forall>j<i. match_port (drop j s) = None"
    by (simp add: match_port_at)
  ultimately have f: "findall_ports s = ?p # findall_ports ?rest"
    by (rule findall_ports_first)
  have j: "join '','' (findall_ports ?rest) = extract_external_ports ?rest"
    by (simp only: extract_external_ports_join)
  have e: "(findall_ports ?rest = []) = (extract_external_ports ?rest = [])"
    by (simp only: extract_external_ports_Nil_iff)
  have "extract_external_ports s =
      (if findall_ports ?rest = [] then ?p else ?p @ '','' @ join '','' (findall_ports ?rest))"
    by (simp only: extract_external_ports_join f join_Cons)
  then have "extract_external_ports s =
      (if extract_external_ports ?rest = [] then ?p
       else ?p @ '','' @ extract_external_ports ?rest)"
    by (simp only: j e)
  then show "extract_external_ports s =
        (let p = takeWhile is_digit (drop (i + 8) s);
             r = extract_external_ports (drop (i + 8 + length p) s)
         in if r = [] then p else p @ '','' @ r)"
    by (simp only: Let_def)
next
  assume "\<forall>i. \<not> port_pattern_at s i"
  then have "\<forall>j<length s. match_port (drop j s) = None"
    by (simp add: match_port_at)
  then have "findall_ports s = []"
    by (rule findall_ports_none)
  then show "extract_external_ports s = []"
    by (simp add: extract_external_ports_join)
next
  show "extract_external_ports [] = []"
    by (simp add: extract_external_ports_def)
next
  show "extract_external_ports ''0.0.0.0:80->80/tcp, 0.0.0.0:80->80/udp'' = ''80,80''"
    by code_simp
qed

theorem extract_external_ports_all_matches_witness:
  "extract_external_ports ''x0.0.0.0:80->80/tcp'' = ''80''
   \<and> extract_external_ports ''80/tcp'' = []"
proof -
  let ?s = "''x0.0.0.0:80->80/tcp''"
  have at: "port_pattern_at ?s 1"
    by (simp add: port_pattern_at_def is_digit_def)
  have before: "\<forall>j<1. \<not> port_pattern_at ?s j"
    by (simp add: port_pattern_at_def)
  have r: "extract_external_ports ''->80/tcp'' = []"
    by code_simp
  have none: "\<forall>i. \<not> port_pattern_at ''80/tcp'' i"
    by (simp add: port_pattern_at_def)
  from extract_external_ports_all_matches [of ?s 1] at before have "extract_external_ports ?s = ''80''"
    by (simp add: r Let_def is_digit_def)
  moreover from extract_external_ports_all_matches [of "''80/tcp''"] none have "extract_external_ports ''80/tcp'' = []"
    by blast
  ultimately show ?thesis by blast
qed

section \<open>Uptime\<close>

text \<open>
  The field of \<open>{n:2d}\<close> is at least two characters wide, and the digits written by
  \<open>str\<close> read back as the number.
\<close>

lemma fmt_2d_width: "2 \<le> length (fmt_2d q)"
  by (simp add: fmt_2d_def rjust_def)

lemma digit_val_digit_char: "d < 10 \<Longrightarrow> digit_val (digit_char d) = int d"
  by (simp add: digit_val_def digit_char_def)

lemma int_of_digits_snoc: "int_of_digits (ds @ [c]) = 10 * int_of_digits ds + digit_val c"
  by (simp add: int_of_digits_def)

lemma int_of_digits_str_nat: "int_of_digits (str_nat n) = int n"
proof (induction n rule: str_nat.induct)
  case (1 n)
  show ?case
  proof (cases "n < 10")
    case True
    then show ?thesis
      by (simp add: str_nat.simps [of n] int_of_digits_def digit_val_digit_char)
  next
    case False
    with 1 have "int_of_digits (str_nat (n div 10)) = int (n div 10)" by simp
    with False show ?thesis
      by (simp add: str_nat.simps [of n] int_of_digits_snoc digit_val_digit_char zdiv_int zmod_int)
  qed
qed

text \<open>
  C4, as stated: 45 seconds are shown as \<open>45 s\<close> with a blank in front. The field is two
  characters wide and \<open>45\<close> fills it: no blank is added.
\<close>

theorem format_uptime_45_no_padding: "format_uptime 45 \<noteq> '' 45 s''"
  by code_simp

text \<open>
  C4, amended. The uptime of a whole number of seconds is the floor quotient by the unit
  chosen at the fixed thresholds (below 60 seconds, below 3600 minutes, below 86400
  hours, below 2592000 days, below 31536000 months of 30 days, else years of 365 days),
  right-justified in a field of at least two characters, a blank and the unit letters:
  45 gives \<open>45 s\<close>, 125 gives \<open> 2 m\<close>, 7300 gives \<open> 2 h\<close>, 200000 gives \<open> 2 d\<close>,
  5200000 gives \<open> 2 mo\<close> and 70000000 gives \<open> 2 y\<close>.
\<close>

theorem format_uptime_thresholds:
  "(n < 60 \<longrightarrow> format_uptime n = fmt_2d n @ '' s'')
   \<and> (60 \<le> n \<and> n < 3600 \<longrightarrow> format_uptime n = fmt_2d (n div 60) @ '' m'')
   \<and> (3600 \<le> n \<and> n < 86400 \<longrightarrow> format_uptime n = fmt_2d (n div 3600) @ '' h'')
   \<and> (86400 \<le> n \<and> n < 2592000 \<longrightarrow> format_uptime n = fmt_2d (n div 86400) @ '' d'')
   \<and> (2592000 \<le> n \<and> n < 31536000 \<longrightarrow> format_uptime n = fmt_2d (n div 2592000) @ '' mo'')
   \<and> (31536000 \<le> n \<longrightarrow> format_uptime n = fmt_2d (n div 31536000) @ '' y'')
   \<and> fmt_2d q = replicate (2 - length (str_int q)) CHR '' '' @ str_int q
   \<and> 2 \<le> length (fmt_2d q)
   \<and> format_uptime 45 = ''45 s''
   \<and> format_uptime 125 = '' 2 m''
   \<and> format_uptime 7300 = '' 2 h''
   \<and> format_uptime 200000 = '' 2 d''
   \<and> format_uptime 5200000 = '' 2 mo''
   \<and> format_uptime 70000000 = '' 2 y''"
proof -
  have "format_uptime 45 = ''45 s''" by code_simp
  moreover have "format_uptime 125 = '' 2 m''" by code_simp
  moreover have "format_uptime 7300 = '' 2 h''" by code_simp
  moreover have "format_uptime 200000 = '' 2 d''" by code_simp
  moreover have "format_uptime 5200000 = '' 2 mo''" by code_simp
  moreover have "format_uptime 70000000 = '' 2 y''" by code_simp
  moreover have "fmt_2d q = replicate (2 - length (str_int q)) CHR '' '' @ str_int q"
    by (simp add: fmt_2d_def rjust_def)
  moreover have "n < 60 \<longrightarrow> format_uptime n = fmt_2d n @ '' s''"
    by (simp add: format_uptime_def)
  moreover have "60 \<le> n \<and> n < 3600 \<longrightarrow> format_uptime n = fmt_2d (n div 60) @ '' m''"
    by (simp add: format_uptime_def)
  moreover have "3600 \<le> n \<and> n < 86400 \<longrightarrow> format_uptime n = fmt_2d (n div 3600) @ '' h''"
    by (simp add: format_uptime_def)
  moreover have "86400 \<le> n \<and> n < 2592000 \<longrightarrow> format_uptime n = fmt_2d (n div 86400) @ '' d''"
    by (simp add: format_uptime_def)
  moreover have "2592000 \<le> n \<and> n < 31536000 \<longrightarrow>
      format_uptime n = fmt_2d (n div 2592000) @ '' mo''"
    by (simp add: format_uptime_def)
  moreover have "31536000 \<le> n \<longrightarrow> format_uptime n = fmt_2d (n div 31536000) @ '' y''"
    by (simp add: format_uptime_def)
  ultimately show ?thesis
    using fmt_2d_width [of q] by blast
qed

theorem format_uptime_thresholds_witness:
  "format_uptime 59 = ''59 s'' \<and> format_uptime 60 = '' 1 m'' \<and> format_uptime 3600 = '' 1 h''
   \<and> format_uptime 86400 = '' 1 d'' \<and> format_uptime 2592000 = '' 1 mo''
   \<and> format_uptime 31536000 = '' 1 y''"
proof -
  have f: "fmt_2d 59 = ''59''" "fmt_2d 1 = '' 1''"
    by code_simp+
  from format_uptime_thresholds [of 59] have "format_uptime 59 = ''59 s''" by (simp add: f)
  moreover from format_uptime_thresholds [of 60] have "format_uptime 60 = '' 1 m''" by (simp add: f)
  moreover from format_uptime_thresholds [of 3600] have "format_uptime 3600 = '' 1 h''" by (simp add: f)
  moreover from format_uptime_thresholds [of 86400] have "format_uptime 86400 = '' 1 d''" by (simp add: f)
  moreover from format_uptime_thresholds [of 2592000] have "format_uptime 2592000 = '' 1 mo''" by (simp add: f)
  moreover from format_uptime_thresholds [of 31536000] have "format_uptime 31536000 = '' 1 y''" by (simp add: f)
  ultimately show ?thesis by blast
qed

text \<open>
  C2. The claim is that a failed inspect falls back to the time in the status text. The
  handler of \<open>get_container_uptime\<close> returns the placeholder at once: for a container
  with the status \<open>Up 5 minutes\<close> whose inspect fails, the uptime cell is \<open>   ?\<close>, while
  \<open>parse_status_for_time\<close>, which nothing calls, would give \<open> 5 m\<close>.
\<close>

theorem inspect_failure_placeholder:
  "get_container_uptime (\<lambda>i. None) ''abc'' = ''   ?''
   \<and> parse_status_for_time ''Up 5 minutes'' = '' 5 m''
   \<and> main (\<lambda>cmd. Stdout [Object \<lparr>ID = ''abc'', Names = ''web'', Status = ''Up 5 minutes'',
                                  Ports = None, Labels = None\<rparr>]) (\<lambda>i. None)
       = Inr [Print_table [[Str ''abc'', Text ''web'' ''bright_cyan'', Str ''-'', Str ''-'',
                            Str ''   ?'', Text ''running'' ''bright_cyan'']]]"
proof (intro conjI)
  show "get_container_uptime (\<lambda>i. None) ''abc'' = ''   ?''"
    by (simp add: get_container_uptime_def)
  show "parse_status_for_time ''Up 5 minutes'' = '' 5 m''"
    by code_simp
  show "main (\<lambda>cmd. Stdout [Object \<lparr>ID = ''abc'', Names = ''web'', Status = ''Up 5 minutes'',
                                  Ports = None, Labels = None\<rparr>]) (\<lambda>i. None)
       = Inr [Print_table [[Str ''abc'', Text ''web'' ''bright_cyan'', Str ''-'', Str ''-'',
                            Str ''   ?'', Text ''running'' ''bright_cyan'']]]"
    by code_simp
qed

end
